theory Spec2Isabelle
  imports Main
begin

section \<open>Data model (src/types/index.ts)\<close>

text \<open>
  Numbers of the source are JavaScript numbers that only ever hold integers here
  (seconds, minutes, epoch milliseconds), so they are modelled as \<open>int\<close>.
  An ISO date string, as produced by \<^verbatim>\<open>isoNow()\<close> =
  \<^verbatim>\<open>new Date().toISOString()\<close>, is modelled by the instant it denotes, in epoch
  milliseconds. Identifiers are strings.
\<close>

record Course =
  id_c :: string
  name :: string
  createdAt :: int
  color :: "string option"

text \<open>\<^verbatim>\<open>Omit<Session, 'id'>\<close> is the record \<open>SessionData\<close>; \<open>Session\<close> adds the id.\<close>

record SessionData =
  courseId :: string
  startAt :: int
  durationSeconds :: int
  targetSeconds :: int
  isPartial :: bool

record Session = SessionData +
  id_s :: string

record TimerState =
  isRunning :: bool
  remainingSeconds :: int
  elapsedSeconds :: int
  targetSeconds :: int
  startTime :: "int option"

datatype error = StorageFailure

section \<open>Utilities (lib/utils)\<close>

definition minutesToSeconds :: "int \<Rightarrow> int" where
  "minutesToSeconds minutes = minutes * 60"

text \<open>
  \<^verbatim>\<open>iso.split('T')[0]\<close> is the UTC calendar date of an ISO string; it is modelled as
  the number of the UTC day the instant falls in. Dates are only compared for equality,
  which day numbers support.
\<close>

definition isoDate :: "int \<Rightarrow> int" where
  "isoDate ms = ms div 86400000"

text \<open>
  The host's time zone enters through \<^verbatim>\<open>getDate\<close> and \<^verbatim>\<open>setDate\<close>, which work
  in local time. It is the parameter \<open>localTZA\<close>, ECMAScript's \<^verbatim>\<open>LocalTZA(t, isUTC)\<close>:
  the offset of local time to UTC, in milliseconds, at the UTC instant \<open>t\<close>
  (\<open>isUTC\<close>) or at the local time \<open>t\<close> (otherwise). With it,
  \<^verbatim>\<open>LocalTime(t) = t + LocalTZA(t, true)\<close> and \<^verbatim>\<open>UTC(t) = t - LocalTZA(t, false)\<close>.
\<close>

definition LocalTime :: "(int \<Rightarrow> bool \<Rightarrow> int) \<Rightarrow> int \<Rightarrow> int" where
  "LocalTime localTZA t = t + localTZA t True"

definition UTC :: "(int \<Rightarrow> bool \<Rightarrow> int) \<Rightarrow> int \<Rightarrow> int" where
  "UTC localTZA t = t - localTZA t False"

text \<open>
  \<^verbatim>\<open>const expectedDate = new Date(today);
  expectedDate.setDate(expectedDate.getDate() - i);
  const expectedDateStr = expectedDate.toISOString().split('T')[0];\<close>
  \<^verbatim>\<open>new Date(today)\<close>, on a date without a time, is midnight UTC of that day;
  \<^verbatim>\<open>setDate(getDate() - i)\<close> keeps the local time of day and moves the local date
  back by \<open>i\<close> days; \<^verbatim>\<open>toISOString\<close> reads the result in UTC.
\<close>

definition expectedDateStr :: "(int \<Rightarrow> bool \<Rightarrow> int) \<Rightarrow> int \<Rightarrow> nat \<Rightarrow> int" where
  "expectedDateStr localTZA today i =
     isoDate (UTC localTZA (LocalTime localTZA (today * 86400000) - int i * 86400000))"

text \<open>
  The loop of \<^verbatim>\<open>calculateStreak\<close>:
  \<^verbatim>\<open>for (let i = 0; i < uniqueDates.length; i++) {
    ...
    if (uniqueDates.includes(expectedDateStr)) { streak++; } else { break; }
  }\<close>
\<close>

function streakLoop ::
  "(int \<Rightarrow> bool \<Rightarrow> int) \<Rightarrow> int \<Rightarrow> int list \<Rightarrow> nat \<Rightarrow> nat \<Rightarrow> nat" where
  "streakLoop localTZA today uniqueDates i streak =
     (if i < length uniqueDates
      then (if expectedDateStr localTZA today i \<in> set uniqueDates
            then streakLoop localTZA today uniqueDates (i + 1) (streak + 1)
            else streak)
      else streak)"
  by pat_completeness auto
termination
  by (relation "measure (\<lambda>(localTZA, today, uniqueDates, i, streak). length uniqueDates - i)")
    auto

declare streakLoop.simps [simp del]

text \<open>\<open>now\<close> is the reading of the clock behind \<^verbatim>\<open>new Date()\<close>.\<close>

definition calculateStreak ::
  "(int \<Rightarrow> bool \<Rightarrow> int) \<Rightarrow> int \<Rightarrow> ('a SessionData_scheme) list \<Rightarrow> nat" where
  "calculateStreak localTZA now sessions =
     (if length sessions = 0 then 0
      else let sessionDates = map (\<lambda>s. isoDate (startAt s)) sessions;
               uniqueDates = sort (remdups sessionDates);
               today = isoDate now
           in streakLoop localTZA today uniqueDates 0 0)"

section \<open>The storage hook (src/hooks/useStorage.tsx)\<close>

text \<open>
  One instance of the hook together with the key-value store behind it: \<open>courses\<close> and
  \<open>sessions\<close> are the hook's in-memory React state (\<^verbatim>\<open>useState\<close>, so every
  component that calls \<^verbatim>\<open>useStorage()\<close> has lists of its own), \<open>storedCourses\<close> and
  \<open>storedSessions\<close> the blobs under the two AsyncStorage keys (\<open>None\<close>: key absent).
  The settings and user collections play no part in what follows and are left out.
\<close>

record Storage =
  courses :: "Course list"
  sessions :: "Session list"
  error :: "string option"
  storedCourses :: "Course list option"
  storedSessions :: "Session list option"

text \<open>
  \<^verbatim>\<open>loadData\<close>: each collection read from the store replaces the in-memory one when
  the key holds a value. A read that fails or a blob that does not parse is not
  modelled.
\<close>

definition loadData :: "Storage \<Rightarrow> Storage" where
  "loadData st =
     (let st1 = st\<lparr>error := None\<rparr>;
          st2 = (case storedCourses st1 of None \<Rightarrow> st1 | Some cs \<Rightarrow> st1\<lparr>courses := cs\<rparr>)
      in (case storedSessions st2 of None \<Rightarrow> st2 | Some ss \<Rightarrow> st2\<lparr>sessions := ss\<rparr>))"

definition reload :: "Storage \<Rightarrow> Storage" where
  "reload st = loadData st"

text \<open>
  \<^verbatim>\<open>addSession\<close>. The callback is created by \<^verbatim>\<open>useCallback(..., [sessions])\<close>, so
  the list it extends is the \<^verbatim>\<open>sessions\<close> of the render that created it: the
  parameter \<open>sessions_cl\<close>. \<open>newId\<close> is the value of \<^verbatim>\<open>uid('s_')\<close>, \<open>writeOk\<close> tells
  whether \<^verbatim>\<open>AsyncStorage.setItem\<close> resolves. \<open>Inl\<close> is the rethrown error.
\<close>

definition newSession :: "string \<Rightarrow> SessionData \<Rightarrow> Session" where
  "newSession newId sessionData =
     \<lparr>courseId = courseId sessionData, startAt = startAt sessionData,
      durationSeconds = durationSeconds sessionData,
      targetSeconds = SessionData.targetSeconds sessionData,
      isPartial = isPartial sessionData, id_s = newId\<rparr>"

definition addSession ::
  "Session list \<Rightarrow> string \<Rightarrow> bool \<Rightarrow> SessionData \<Rightarrow> Storage \<Rightarrow> (error + unit) \<times> Storage" where
  "addSession sessions_cl newId writeOk sessionData st =
     (let updatedSessions = sessions_cl @ [newSession newId sessionData];
          st1 = st\<lparr>sessions := updatedSessions\<rparr>
      in if writeOk
         then (Inr (), st1\<lparr>storedSessions := Some updatedSessions\<rparr>)
         else (Inl StorageFailure, st1\<lparr>error := Some ''Failed to add session''\<rparr>))"

text \<open>
  \<^verbatim>\<open>removeCourse\<close>, with one flag for each of its two awaited writes. A failed first
  write skips the session part altogether.
\<close>

definition removeCourse ::
  "string \<Rightarrow> bool \<Rightarrow> bool \<Rightarrow> Storage \<Rightarrow> (error + unit) \<times> Storage" where
  "removeCourse cid writeOk1 writeOk2 st =
     (let updatedCourses = filter (\<lambda>course. id_c course \<noteq> cid) (courses st);
          st1 = st\<lparr>courses := updatedCourses\<rparr>
      in if \<not> writeOk1
         then (Inl StorageFailure, st1\<lparr>error := Some ''Failed to remove course''\<rparr>)
         else
           (let st2 = st1\<lparr>storedCourses := Some updatedCourses\<rparr>;
                updatedSessions = filter (\<lambda>session. courseId session \<noteq> cid) (sessions st);
                st3 = st2\<lparr>sessions := updatedSessions\<rparr>
            in if \<not> writeOk2
               then (Inl StorageFailure, st3\<lparr>error := Some ''Failed to remove course''\<rparr>)
               else (Inr (), st3\<lparr>storedSessions := Some updatedSessions\<rparr>)))"

text \<open>
  AsyncStorage is one store for all instances of the hook. \<open>sharedStore st writer\<close> is
  the instance \<open>st\<close> once the instance \<open>writer\<close> has written: the blobs are the
  writer's, the in-memory lists of \<open>st\<close> are what they were. \<open>homeInstance\<close> is the
  instance of the home screen, which loads on mount and never calls \<^verbatim>\<open>reload\<close>.
\<close>

definition sharedStore :: "Storage \<Rightarrow> Storage \<Rightarrow> Storage" where
  "sharedStore st writer =
     st\<lparr>storedCourses := storedCourses writer, storedSessions := storedSessions writer\<rparr>"

definition initialStorage :: "Course list option \<Rightarrow> Session list option \<Rightarrow> Storage" where
  "initialStorage diskCourses diskSessions =
     \<lparr>courses = [], sessions = [], error = None,
      storedCourses = diskCourses, storedSessions = diskSessions\<rparr>"

definition homeInstance :: "Course list option \<Rightarrow> Session list option \<Rightarrow> Storage" where
  "homeInstance diskCourses diskSessions = loadData (initialStorage diskCourses diskSessions)"

section \<open>The course screen: starting a timer (CourseScreen)\<close>

text \<open>
  What a press on a start control does: navigate to the timer screen with a duration, or
  show the alert \<^verbatim>\<open>'Invalid Duration'\<close>. The preset buttons are rendered from the
  list \<^verbatim>\<open>[10, 20, 30, 40, 60]\<close>, each calling \<^verbatim>\<open>handleStartTimer(minutes)\<close>.
  \<^verbatim>\<open>parseInt\<close> is the host's: its result on the text field is a parameter,
  \<open>None\<close> standing for \<^verbatim>\<open>NaN\<close> (every comparison with \<^verbatim>\<open>NaN\<close> is false).
\<close>

datatype Navigation = NavigateTimerScreen string int | AlertInvalidDuration

definition presetDurations :: "int list" where
  "presetDurations = [10, 20, 30, 40, 60]"

definition handleStartTimer :: "string \<Rightarrow> int \<Rightarrow> Navigation" where
  "handleStartTimer cid durationMinutes = NavigateTimerScreen cid durationMinutes"

definition customStartOnPress :: "string \<Rightarrow> string \<Rightarrow> int option \<Rightarrow> Navigation" where
  "customStartOnPress cid customDuration parsed =
     (case parsed of
        None \<Rightarrow> AlertInvalidDuration
      | Some m \<Rightarrow>
          if customDuration \<noteq> [] \<and> m > 0 \<and> m \<le> 480
          then NavigateTimerScreen cid m
          else AlertInvalidDuration)"

section \<open>The timer screen (src/screens/TimerScreen.tsx)\<close>

datatype AppStateStatus = Active | Background | Inactive | Unknown | Extension

text \<open>
  A running interval holds the callback of the render in which the tick effect last ran
  (its dependency list is \<^verbatim>\<open>[timerState.isRunning]\<close>). That callback calls the
  \<^verbatim>\<open>handleTimerComplete\<close> of the same render, which reads that render's
  \<^verbatim>\<open>timerState\<close> and, through \<^verbatim>\<open>addSession\<close>, that render's
  \<^verbatim>\<open>sessions\<close>.
\<close>

record Closure =
  cl_timerState :: TimerState
  cl_sessions :: "Session list"

text \<open>
  The component's state: the route parameters, \<^verbatim>\<open>timerState\<close>, the two refs, the
  modal flags, the hook instance, and what the user has been shown (\<open>alerts\<close>, by title)
  and whether \<^verbatim>\<open>navigation.goBack()\<close> was called. \<open>intervalRef = None\<close> means that no
  interval is live; \<open>subscription\<close> that the AppState listener is registered.
\<close>

record TimerScreen =
  route_courseId :: string
  route_durationMinutes :: int
  timerState :: TimerState
  intervalRef :: "Closure option"
  appStateRef :: AppStateStatus
  subscription :: bool
  showCompletionModal :: bool
  showNewCycleModal :: bool
  showCustomTimeInput :: bool
  storage :: Storage
  alerts :: "string list"
  wentBack :: bool

definition freshTimerState :: "bool \<Rightarrow> int \<Rightarrow> int option \<Rightarrow> TimerState" where
  "freshTimerState running minutes start =
     \<lparr>isRunning = running, remainingSeconds = minutesToSeconds minutes,
      elapsedSeconds = 0, targetSeconds = minutesToSeconds minutes, startTime = start\<rparr>"

text \<open>
  The screen after its first render and effects, opened with the app in the foreground:
  the timer starts at once, and the interval is set up from the first render, in which
  the hook still holds its initial empty lists (\<^verbatim>\<open>loadData\<close> completes later: the
  event \<open>DataLoaded\<close> below).
\<close>

definition mount ::
  "string \<Rightarrow> int \<Rightarrow> int \<Rightarrow> Course list option \<Rightarrow> Session list option \<Rightarrow> TimerScreen" where
  "mount cid durationMinutes now diskCourses diskSessions =
     (let ts = freshTimerState True durationMinutes (Some now);
          st = initialStorage diskCourses diskSessions
      in \<lparr>route_courseId = cid, route_durationMinutes = durationMinutes,
          timerState = ts,
          intervalRef = Some \<lparr>cl_timerState = ts, cl_sessions = sessions st\<rparr>,
          appStateRef = Active, subscription = True,
          showCompletionModal = False, showNewCycleModal = False,
          showCustomTimeInput = False,
          storage = st, alerts = [], wentBack = False\<rparr>)"

text \<open>
  \<^verbatim>\<open>prev.startTime ? Math.floor((now - prev.startTime) / 1000) : 0\<close> and
  \<^verbatim>\<open>Math.max(0, prev.targetSeconds - elapsed)\<close>. A start time is falsy when it is
  \<^verbatim>\<open>null\<close> or \<open>0\<close>. On integers \<open>div\<close> rounds down, as \<^verbatim>\<open>Math.floor\<close> does.
\<close>

definition elapsedAt :: "int \<Rightarrow> TimerState \<Rightarrow> int" where
  "elapsedAt now prev =
     (case startTime prev of
        None \<Rightarrow> 0
      | Some t \<Rightarrow> if t = 0 then 0 else (now - t) div 1000)"

definition remainingAt :: "int \<Rightarrow> TimerState \<Rightarrow> int" where
  "remainingAt now prev = max 0 (targetSeconds prev - elapsedAt now prev)"

text \<open>
  \<^verbatim>\<open>handleTimerComplete\<close>, as seen by the interval callback: \<open>cl\<close> is the render it
  belongs to, \<open>now\<close> the reading of \<^verbatim>\<open>isoNow()\<close>. The awaited write and what follows
  it are taken as one step.
\<close>

definition handleTimerComplete ::
  "Closure \<Rightarrow> int \<Rightarrow> string \<Rightarrow> bool \<Rightarrow> TimerScreen \<Rightarrow> TimerScreen" where
  "handleTimerComplete cl now newId writeOk scr =
     (case addSession (cl_sessions cl) newId writeOk
             \<lparr>courseId = route_courseId scr, startAt = now,
              durationSeconds = targetSeconds (cl_timerState cl),
              targetSeconds = targetSeconds (cl_timerState cl),
              isPartial = False\<rparr>
             (storage scr) of
        (Inr u, st) \<Rightarrow> scr\<lparr>showCompletionModal := True, storage := reload st\<rparr>
      | (Inl e, st) \<Rightarrow> scr\<lparr>storage := st, alerts := alerts scr @ [''Error'']\<rparr>)"

text \<open>The interval callback. Without a live interval nothing runs.\<close>

definition timerTick :: "int \<Rightarrow> string \<Rightarrow> bool \<Rightarrow> TimerScreen \<Rightarrow> TimerScreen" where
  "timerTick now newId writeOk scr =
     (case intervalRef scr of
        None \<Rightarrow> scr
      | Some cl \<Rightarrow>
          (let prev = timerState scr;
               elapsed = elapsedAt now prev;
               remaining = remainingAt now prev
           in if remaining \<le> 0
              then (handleTimerComplete cl now newId writeOk scr)
                     \<lparr>timerState := prev\<lparr>isRunning := False, remainingSeconds := 0,
                                          elapsedSeconds := targetSeconds prev\<rparr>\<rparr>
              else scr\<lparr>timerState := prev\<lparr>remainingSeconds := remaining,
                                            elapsedSeconds := elapsed\<rparr>\<rparr>))"

text \<open>
  \<^verbatim>\<open>handleAppStateChange\<close>. Its effect depends on the three fields of
  \<^verbatim>\<open>timerState\<close> it reads, so it always sees the current ones.
\<close>

definition handleAppStateChange :: "AppStateStatus \<Rightarrow> int \<Rightarrow> TimerScreen \<Rightarrow> TimerScreen" where
  "handleAppStateChange nextAppState now scr =
     (if \<not> subscription scr then scr
      else
        (let ts = timerState scr;
             scr1 =
               (if (appStateRef scr = Inactive \<or> appStateRef scr = Background)
                    \<and> nextAppState = Active
                then (case startTime ts of
                        None \<Rightarrow> scr
                      | Some t \<Rightarrow>
                          if isRunning ts \<and> t \<noteq> 0
                          then (let elapsed = (now - t) div 1000;
                                    remaining = max 0 (targetSeconds ts - elapsed)
                                in scr\<lparr>timerState := ts\<lparr>remainingSeconds := remaining,
                                                            elapsedSeconds := elapsed\<rparr>\<rparr>)
                          else scr)
                else scr)
         in scr1\<lparr>appStateRef := nextAppState\<rparr>))"

definition handleResume :: "int \<Rightarrow> TimerScreen \<Rightarrow> TimerScreen" where
  "handleResume now scr =
     (let prev = timerState scr
      in scr\<lparr>timerState := prev\<lparr>isRunning := True,
               startTime := Some (now - (targetSeconds prev - remainingSeconds prev) * 1000)\<rparr>\<rparr>)"

definition handlePause :: "TimerScreen \<Rightarrow> TimerScreen" where
  "handlePause scr = scr\<lparr>timerState := (timerState scr)\<lparr>isRunning := False\<rparr>\<rparr>"

definition handleReset :: "TimerScreen \<Rightarrow> TimerScreen" where
  "handleReset scr =
     scr\<lparr>timerState := freshTimerState False (route_durationMinutes scr) None\<rparr>"

text \<open>
  \<^verbatim>\<open>handleTerminate\<close> is the handler of the current render: it reads the current
  \<^verbatim>\<open>timerState\<close> and extends the current \<^verbatim>\<open>sessions\<close>.
\<close>

definition handleTerminate :: "int \<Rightarrow> string \<Rightarrow> bool \<Rightarrow> TimerScreen \<Rightarrow> TimerScreen" where
  "handleTerminate now newId writeOk scr =
     (if elapsedSeconds (timerState scr) = 0
      then scr\<lparr>wentBack := True\<rparr>
      else
        (case addSession (sessions (storage scr)) newId writeOk
                \<lparr>courseId = route_courseId scr, startAt = now,
                 durationSeconds = elapsedSeconds (timerState scr),
                 targetSeconds = targetSeconds (timerState scr),
                 isPartial = True\<rparr>
                (storage scr) of
           (Inr u, st) \<Rightarrow> scr\<lparr>storage := st, wentBack := True\<rparr>
         | (Inl e, st) \<Rightarrow> scr\<lparr>storage := st, alerts := alerts scr @ [''Error'']\<rparr>))"

definition handleStartNewCycle :: "TimerScreen \<Rightarrow> TimerScreen" where
  "handleStartNewCycle scr = scr\<lparr>showCompletionModal := False, showNewCycleModal := True\<rparr>"

definition handleExit :: "TimerScreen \<Rightarrow> TimerScreen" where
  "handleExit scr = scr\<lparr>showCompletionModal := False, wentBack := True\<rparr>"

definition handleSameTime :: "int \<Rightarrow> TimerScreen \<Rightarrow> TimerScreen" where
  "handleSameTime now scr =
     scr\<lparr>showNewCycleModal := False,
         timerState := freshTimerState True (route_durationMinutes scr) (Some now)\<rparr>"

definition handleCustomTime :: "TimerScreen \<Rightarrow> TimerScreen" where
  "handleCustomTime scr = scr\<lparr>showNewCycleModal := False, showCustomTimeInput := True\<rparr>"

text \<open>
  \<^verbatim>\<open>handleCustomTimeSubmit\<close>; \<open>customMinutes\<close> is
  \<^verbatim>\<open>parseInt(customTimeInput)\<close>, \<open>None\<close> for \<^verbatim>\<open>NaN\<close>.
\<close>

definition handleCustomTimeSubmit :: "int option \<Rightarrow> int \<Rightarrow> TimerScreen \<Rightarrow> TimerScreen" where
  "handleCustomTimeSubmit customMinutes now scr =
     (case customMinutes of
        None \<Rightarrow> scr\<lparr>alerts := alerts scr @ [''Invalid Duration'']\<rparr>
      | Some m \<Rightarrow>
          if m > 0 \<and> m \<le> 480
          then scr\<lparr>showCustomTimeInput := False,
                   timerState := freshTimerState True m (Some now)\<rparr>
          else scr\<lparr>alerts := alerts scr @ [''Invalid Duration'']\<rparr>)"

text \<open>
  Unmounting the screen, as navigating back does, runs the cleanups of its two effects
  and nothing else: \<^verbatim>\<open>clearInterval(intervalRef.current)\<close> and
  \<^verbatim>\<open>subscription?.remove()\<close>.
\<close>

definition unmount :: "TimerScreen \<Rightarrow> TimerScreen" where
  "unmount scr = scr\<lparr>intervalRef := None, subscription := False\<rparr>"

text \<open>
  What can happen to the screen. The clock reading, the generated id and the outcome of
  the storage write come with the event; a handler that reads the clock more than once
  (\<^verbatim>\<open>Date.now()\<close> in the tick, \<^verbatim>\<open>isoNow()\<close> in \<^verbatim>\<open>handleTimerComplete\<close>)
  gets the one reading. The Pause/Resume tile is one button:
  \<^verbatim>\<open>onPress={timerState.isRunning ? handlePause : handleResume}\<close>. The modals'
  \<^verbatim>\<open>onRequestClose\<close> handlers are the three \<open>Close\<close> events.
\<close>

datatype Event =
    Tick int string bool
  | AppStateChange AppStateStatus int
  | PressPauseResume int
  | PressReset
  | PressTerminate int string bool
  | CloseCompletionModal
  | CloseNewCycleModal
  | CloseCustomTimeInput
  | PressStartNewCycle
  | PressExit
  | PressSameTime int
  | PressCustomTime
  | SubmitCustomTime "int option" int
  | DataLoaded
  | Unmount

fun handle :: "Event \<Rightarrow> TimerScreen \<Rightarrow> TimerScreen" where
  "handle (Tick now newId writeOk) scr = timerTick now newId writeOk scr"
| "handle (AppStateChange nextAppState now) scr = handleAppStateChange nextAppState now scr"
| "handle (PressPauseResume now) scr =
     (if isRunning (timerState scr) then handlePause scr else handleResume now scr)"
| "handle PressReset scr = handleReset scr"
| "handle (PressTerminate now newId writeOk) scr = handleTerminate now newId writeOk scr"
| "handle CloseCompletionModal scr = scr\<lparr>showCompletionModal := False\<rparr>"
| "handle CloseNewCycleModal scr = scr\<lparr>showNewCycleModal := False\<rparr>"
| "handle CloseCustomTimeInput scr = scr\<lparr>showCustomTimeInput := False\<rparr>"
| "handle PressStartNewCycle scr = handleStartNewCycle scr"
| "handle PressExit scr = handleExit scr"
| "handle (PressSameTime now) scr = handleSameTime now scr"
| "handle PressCustomTime scr = handleCustomTime scr"
| "handle (SubmitCustomTime customMinutes now) scr = handleCustomTimeSubmit customMinutes now scr"
| "handle DataLoaded scr = scr\<lparr>storage := loadData (storage scr)\<rparr>"
| "handle Unmount scr = unmount scr"

text \<open>
  The tick effect after a render: when \<^verbatim>\<open>timerState.isRunning\<close> has changed, the
  old interval is cleared and, if the timer runs, a new one is set with the callback of
  this render.
\<close>

definition timerEffect :: "bool \<Rightarrow> TimerScreen \<Rightarrow> TimerScreen" where
  "timerEffect wasRunning scr =
     (if isRunning (timerState scr) = wasRunning then scr
      else if isRunning (timerState scr)
           then scr\<lparr>intervalRef := Some \<lparr>cl_timerState = timerState scr,
                                         cl_sessions = sessions (storage scr)\<rparr>\<rparr>
           else scr\<lparr>intervalRef := None\<rparr>)"

definition step :: "TimerScreen \<Rightarrow> Event \<Rightarrow> TimerScreen" where
  "step scr ev = timerEffect (isRunning (timerState scr)) (handle ev scr)"

definition run :: "TimerScreen \<Rightarrow> Event list \<Rightarrow> TimerScreen" where
  "run scr evs = foldl step scr evs"

section \<open>Example data\<close>

definition course1 :: Course where
  "course1 = \<lparr>id_c = ''c_1'', name = ''Algebra'', createdAt = 500, color = None\<rparr>"

definition course2 :: Course where
  "course2 = \<lparr>id_c = ''c_2'', name = ''Biology'', createdAt = 600, color = None\<rparr>"

definition sessionAt :: "string \<Rightarrow> string \<Rightarrow> int \<Rightarrow> Session" where
  "sessionAt sid cid t =
     \<lparr>courseId = cid, startAt = t, durationSeconds = 600, targetSeconds = 600,
      isPartial = False, id_s = sid\<rparr>"

text \<open>
  A one-minute run for \<open>course1\<close>, opened at clock reading 1000 on a store with that
  course and no sessions, after the hook has loaded its data; and the same run once the
  app has gone to the background.
\<close>

definition exampleScreen :: TimerScreen where
  "exampleScreen = run (mount ''c_1'' 1 1000 (Some [course1]) (Some [])) [DataLoaded]"

definition exampleClosure :: Closure where
  "exampleClosure = \<lparr>cl_timerState = freshTimerState True 1 (Some 1000), cl_sessions = []\<rparr>"

definition backgroundedScreen :: TimerScreen where
  "backgroundedScreen = step exampleScreen (AppStateChange Background 5000)"

text \<open>
  Two hosts: one on UTC, and one on New York time around the end of daylight saving
  time on 3 November 2024 (at 06:00 UTC, 02:00 local time): four hours behind UTC
  before it, five hours after.
\<close>

definition utcHost :: "int \<Rightarrow> bool \<Rightarrow> int" where
  "utcHost t isUTC = 0"

definition newYorkAutumn2024 :: "int \<Rightarrow> bool \<Rightarrow> int" where
  "newYorkAutumn2024 t isUTC =
     (if t < (if isUTC then 1730613600000 else 1730599200000)
      then - 14400000 else - 18000000)"

section \<open>The streak\<close>

lemma expectedDateStr_constant_offset:
  assumes "\<forall>t b. localTZA t b = c"
  shows "expectedDateStr localTZA today i = today - int i"
proof -
  have "today * 86400000 + c - int i * 86400000 - c = (today - int i) * 86400000"
    by (simp add: algebra_simps)
  then show ?thesis
    using assms by (simp add: expectedDateStr_def LocalTime_def UTC_def isoDate_def)
qed

lemma streakLoop_inv:
  "streak = i \<Longrightarrow> i \<le> length uds \<Longrightarrow>
   \<forall>k<i. expectedDateStr tza today k \<in> set uds \<Longrightarrow>
   i \<le> streakLoop tza today uds i streak
   \<and> streakLoop tza today uds i streak \<le> length uds
   \<and> (\<forall>k < streakLoop tza today uds i streak. expectedDateStr tza today k \<in> set uds)
   \<and> (streakLoop tza today uds i streak < length uds \<longrightarrow>
        expectedDateStr tza today (streakLoop tza today uds i streak) \<notin> set uds)"
proof (induction tza today uds i streak rule: streakLoop.induct)
  case (1 tza today uniqueDates i streak)
  have unfold: "streakLoop tza today uniqueDates i streak =
     (if i < length uniqueDates
      then (if expectedDateStr tza today i \<in> set uniqueDates
            then streakLoop tza today uniqueDates (i + 1) (streak + 1)
            else streak)
      else streak)"
    by (rule streakLoop.simps)
  show ?case
  proof (cases "i < length uniqueDates")
    case False
    then have "streakLoop tza today uniqueDates i streak = streak" using unfold by simp
    with False "1.prems" show ?thesis by simp
  next
    case inb: True
    show ?thesis
    proof (cases "expectedDateStr tza today i \<in> set uniqueDates")
      case False
      then have "streakLoop tza today uniqueDates i streak = streak" using unfold inb by simp
      with False inb "1.prems" show ?thesis by simp
    next
      case True
      have all: "\<forall>k<i + 1. expectedDateStr tza today k \<in> set uniqueDates"
        using True "1.prems"(3) by (auto simp: less_Suc_eq)
      have eq: "streakLoop tza today uniqueDates i streak
                = streakLoop tza today uniqueDates (i + 1) (streak + 1)"
        using inb True unfold by simp
      have "i + 1 \<le> streakLoop tza today uniqueDates (i + 1) (streak + 1)
   \<and> streakLoop tza today uniqueDates (i + 1) (streak + 1) \<le> length uniqueDates
   \<and> (\<forall>k < streakLoop tza today uniqueDates (i + 1) (streak + 1).
          expectedDateStr tza today k \<in> set uniqueDates)
   \<and> (streakLoop tza today uniqueDates (i + 1) (streak + 1) < length uniqueDates \<longrightarrow>
        expectedDateStr tza today (streakLoop tza today uniqueDates (i + 1) (streak + 1))
          \<notin> set uniqueDates)"
      proof (rule "1.IH"[OF inb True])
        show "streak + 1 = i + 1" using "1.prems"(1) by simp
        show "i + 1 \<le> length uniqueDates" using inb by simp
        show "\<forall>k<i + 1. expectedDateStr tza today k \<in> set uniqueDates" by (rule all)
      qed
      then show ?thesis unfolding eq by simp
    qed
  qed
qed

text \<open>
  When the loop stops because it has run through the whole list, the days it found are
  all the dates there are, so the next day back is not among them.
\<close>

lemma full_run_exhausts:
  assumes d: "distinct uds" and all: "\<forall>k<length uds. today - int k \<in> set uds"
  shows "today - int (length uds) \<notin> set uds"
proof -
  let ?A = "(\<lambda>k. today - int k) ` {..<length uds}"
  have inj: "inj_on (\<lambda>k. today - int k) {..<length uds}" by (auto simp: inj_on_def)
  have sub: "?A \<subseteq> set uds" using all by auto
  have "card ?A = length uds" using inj by (simp add: card_image)
  also have "\<dots> = card (set uds)" using d by (simp add: distinct_card)
  finally have "?A = set uds" using sub by (simp add: card_subset_eq)
  moreover have "today - int (length uds) \<notin> ?A" by auto
  ultimately show ?thesis by simp
qed

lemma streakLoop_char:
  assumes d: "distinct uds" and const: "\<forall>t b. tza t b = c"
  shows "(\<forall>k < streakLoop tza today uds 0 0. today - int k \<in> set uds)
         \<and> today - int (streakLoop tza today uds 0 0) \<notin> set uds"
proof -
  let ?r = "streakLoop tza today uds 0 0"
  have inv: "?r \<le> length uds \<and> (\<forall>k < ?r. today - int k \<in> set uds)
        \<and> (?r < length uds \<longrightarrow> today - int ?r \<notin> set uds)"
    using streakLoop_inv[of 0 0 uds tza today]
    by (simp add: expectedDateStr_constant_offset[OF const])
  show ?thesis
  proof (cases "?r < length uds")
    case True with inv show ?thesis by simp
  next
    case False
    with inv have "?r = length uds" by simp
    with inv full_run_exhausts[OF d, of today] show ?thesis by simp
  qed
qed

lemma calculateStreak_char:
  assumes const: "\<forall>t b. tza t b = c"
  shows "(\<forall>k < calculateStreak tza now ss.
            isoDate now - int k \<in> (\<lambda>s. isoDate (startAt s)) ` set ss)
   \<and> isoDate now - int (calculateStreak tza now ss) \<notin> (\<lambda>s. isoDate (startAt s)) ` set ss"
proof (cases "ss = []")
  case True then show ?thesis by (simp add: calculateStreak_def)
next
  case False
  have "distinct (sort (remdups (map (\<lambda>s. isoDate (startAt s)) ss)))" by simp
  from streakLoop_char[OF this const, of "isoDate now"] False
  show ?thesis by (simp add: calculateStreak_def Let_def)
qed

lemma first_gap_unique:
  fixes n m :: nat
  assumes "\<forall>k<n. P k" "\<not> P n" "\<forall>k<m. P k" "\<not> P m"
  shows "n = m"
  using assms by (meson linorder_neqE_nat)

lemma calculateStreak_eqI:
  assumes "\<forall>t b. tza t b = c"
    and "\<forall>k<n. isoDate now - int k \<in> (\<lambda>s. isoDate (startAt s)) ` set ss"
    and "isoDate now - int n \<notin> (\<lambda>s. isoDate (startAt s)) ` set ss"
  shows "calculateStreak tza now ss = n"
  using first_gap_unique[of "calculateStreak tza now ss"
          "\<lambda>k. isoDate now - int k \<in> (\<lambda>s. isoDate (startAt s)) ` set ss" n]
    calculateStreak_char[OF assms(1), of now ss] assms(2,3) by blast

text \<open>
  On a host whose offset to UTC never changes, the streak is the number of consecutive
  calendar days, counted backward from today, that each hold the date of at least one
  session, up to the first day that holds none. In particular the streak of no sessions
  is 0; it is 1 when today has a session and yesterday has none, 2 when today and
  yesterday have one and the day before has none, and 0 when today has none.
\<close>

lemma calculateStreak_constant_offset:
  fixes ss ss0 ss1 ss2 :: "Session list"
  assumes const: "\<forall>t b. tza t b = c"
  shows "((\<forall>k < calculateStreak tza now ss.
             isoDate now - int k \<in> (\<lambda>s. isoDate (startAt s)) ` set ss)
          \<and> isoDate now - int (calculateStreak tza now ss)
               \<notin> (\<lambda>s. isoDate (startAt s)) ` set ss)
       \<and> calculateStreak tza now ([] :: Session list) = 0
       \<and> (isoDate now \<in> (\<lambda>s. isoDate (startAt s)) ` set ss1
            \<and> isoDate now - 1 \<notin> (\<lambda>s. isoDate (startAt s)) ` set ss1
          \<longrightarrow> calculateStreak tza now ss1 = 1)
       \<and> (isoDate now \<in> (\<lambda>s. isoDate (startAt s)) ` set ss2
            \<and> isoDate now - 1 \<in> (\<lambda>s. isoDate (startAt s)) ` set ss2
            \<and> isoDate now - 2 \<notin> (\<lambda>s. isoDate (startAt s)) ` set ss2
          \<longrightarrow> calculateStreak tza now ss2 = 2)
       \<and> (isoDate now \<notin> (\<lambda>s. isoDate (startAt s)) ` set ss0
          \<longrightarrow> calculateStreak tza now ss0 = 0)"
proof -
  have c0: "calculateStreak tza now ([] :: Session list) = 0" by (simp add: calculateStreak_def)
  have c1: "isoDate now \<in> (\<lambda>s. isoDate (startAt s)) ` set ss1
            \<and> isoDate now - 1 \<notin> (\<lambda>s. isoDate (startAt s)) ` set ss1
            \<longrightarrow> calculateStreak tza now ss1 = 1"
    using calculateStreak_eqI[OF const, of 1 now ss1] by simp
  have c2: "isoDate now \<in> (\<lambda>s. isoDate (startAt s)) ` set ss2
            \<and> isoDate now - 1 \<in> (\<lambda>s. isoDate (startAt s)) ` set ss2
            \<and> isoDate now - 2 \<notin> (\<lambda>s. isoDate (startAt s)) ` set ss2
            \<longrightarrow> calculateStreak tza now ss2 = 2"
  proof
    let ?D = "(\<lambda>s. isoDate (startAt s)) ` set ss2"
    assume a: "isoDate now \<in> ?D \<and> isoDate now - 1 \<in> ?D \<and> isoDate now - 2 \<notin> ?D"
    have "\<forall>k<2::nat. isoDate now - int k \<in> ?D"
    proof (intro allI impI)
      fix k :: nat assume "k < 2"
      then have "k = 0 \<or> k = 1" by auto
      with a show "isoDate now - int k \<in> ?D" by auto
    qed
    with a show "calculateStreak tza now ss2 = 2"
      using calculateStreak_eqI[OF const, of 2 now ss2] by simp
  qed
  have c3: "isoDate now \<notin> (\<lambda>s. isoDate (startAt s)) ` set ss0
            \<longrightarrow> calculateStreak tza now ss0 = 0"
    using calculateStreak_eqI[OF const, of 0 now ss0] by simp
  from calculateStreak_char[OF const, of now ss] c0 c1 c2 c3 show ?thesis by blast
qed

text \<open>
  On the UTC host, on 5 November 2024 at noon: sessions on the 5th, the 4th and the 2nd
  give a streak of 2.
\<close>

lemma calculateStreak_on_utcHost:
  "calculateStreak utcHost 1730808000000
      [sessionAt ''s_1'' ''c_1'' 1730799000000, sessionAt ''s_2'' ''c_1'' 1730712600000,
       sessionAt ''s_3'' ''c_1'' 1730539800000] = 2"
  by code_simp

text \<open>
  C9. The same three sessions on the New York host, on the same day: today (5 November)
  and yesterday hold a session, the day before (3 November) holds none, and the streak
  comes out as 3. Two days back from midnight UTC of the 5th in local time is
  2 November, 19:00, on daylight saving time, which is 23:00 UTC of 2 November: the
  loop looks for 2 November where it should look for 3 November.
\<close>

theorem calculateStreak_across_dst_end:
  "map (\<lambda>s. isoDate (startAt s))
      [sessionAt ''s_1'' ''c_1'' 1730799000000, sessionAt ''s_2'' ''c_1'' 1730712600000,
       sessionAt ''s_3'' ''c_1'' 1730539800000] = [20032, 20031, 20029]
   \<and> isoDate 1730808000000 = 20032
   \<and> expectedDateStr newYorkAutumn2024 20032 2 = 20029
   \<and> calculateStreak newYorkAutumn2024 1730808000000
      [sessionAt ''s_1'' ''c_1'' 1730799000000, sessionAt ''s_2'' ''c_1'' 1730712600000,
       sessionAt ''s_3'' ''c_1'' 1730539800000] = 3"
  by code_simp

section \<open>The storage hook\<close>

text \<open>
  C10. \<^verbatim>\<open>addSession\<close> sets the in-memory list before it awaits the write. When the
  write fails the error is rethrown, the in-memory list already ends with the new
  record and so differs from what it was, and the stored collection is untouched; a
  second call then appends a second record with the same data.
\<close>

theorem addSession_write_failure_not_atomic:
  "(let r1 = addSession (sessions st) newId False sessionData st;
        st1 = snd r1;
        r2 = addSession (sessions st1) newId2 writeOk sessionData st1
    in fst r1 = Inl StorageFailure
       \<and> sessions st1 = sessions st @ [newSession newId sessionData]
       \<and> sessions st1 \<noteq> sessions st
       \<and> storedSessions st1 = storedSessions st
       \<and> error st1 = Some ''Failed to add session''
       \<and> sessions (snd r2)
           = sessions st @ [newSession newId sessionData, newSession newId2 sessionData])"
  by (simp add: addSession_def Let_def)

text \<open>
  What \<^verbatim>\<open>removeCourse\<close> does when both writes succeed, on an instance whose session
  list is the stored one: the stored sessions afterwards are the stored sessions before
  without those of the deleted course, and when every session referred to a course
  before, every stored session refers to a stored course after.
\<close>

lemma removeCourse_in_sync:
  assumes sync: "storedSessions st = Some (sessions st)"
    and refs: "\<forall>s \<in> set (sessions st). courseId s \<in> id_c ` set (courses st)"
  shows "fst (removeCourse cid True True st) = Inr ()
     \<and> storedSessions (snd (removeCourse cid True True st))
         = Some (filter (\<lambda>s. courseId s \<noteq> cid) (the (storedSessions st)))
     \<and> storedCourses (snd (removeCourse cid True True st))
         = Some (filter (\<lambda>c. id_c c \<noteq> cid) (courses st))
     \<and> (\<forall>s \<in> set (the (storedSessions (snd (removeCourse cid True True st)))).
           courseId s \<in> id_c ` set (the (storedCourses (snd (removeCourse cid True True st)))))"
proof -
  have "\<And>s. s \<in> set (sessions st) \<Longrightarrow> courseId s \<noteq> cid \<Longrightarrow>
          courseId s \<in> id_c ` set (filter (\<lambda>c. id_c c \<noteq> cid) (courses st))"
    using refs by force
  then show ?thesis using sync by (simp add: removeCourse_def Let_def)
qed

text \<open>
  C7. The home screen's instance loads two courses and no sessions. A timer run for
  \<open>course2\<close>, on the timer screen's instance, is terminated after 300 seconds and
  stores its partial session. The user then deletes \<open>course1\<close> on the home screen:
  \<^verbatim>\<open>removeCourse\<close> filters the home instance's own, still empty, session list and
  writes it, so the stored session of \<open>course2\<close> is gone.
\<close>

theorem removeCourse_on_stale_instance_drops_other_sessions:
  "storedSessions
      (sharedStore (homeInstance (Some [course1, course2]) (Some []))
         (storage (run (mount ''c_2'' 20 1000 (Some [course1, course2]) (Some []))
            [DataLoaded, Tick 301000 ''s_0'' True, PressTerminate 301500 ''s_1'' True])))
     = Some [\<lparr>courseId = ''c_2'', startAt = 301500, durationSeconds = 300,
              targetSeconds = 1200, isPartial = True, id_s = ''s_1''\<rparr>]
   \<and> removeCourse ''c_1'' True True
      (sharedStore (homeInstance (Some [course1, course2]) (Some []))
         (storage (run (mount ''c_2'' 20 1000 (Some [course1, course2]) (Some []))
            [DataLoaded, Tick 301000 ''s_0'' True, PressTerminate 301500 ''s_1'' True])))
     = (Inr (), \<lparr>courses = [course2], sessions = [], error = None,
                 storedCourses = Some [course2], storedSessions = Some []\<rparr>)"
  by code_simp

section \<open>Accepted durations\<close>

text \<open>
  C8. A timer run starts only with a duration between 1 and 480 minutes. On the course
  screen the custom start navigates to the timer only with such a duration and otherwise
  shows the alert without navigating, and every preset is within the bound. On the timer
  screen a custom duration within the bound starts a fresh run of that many minutes;
  any other input leaves the screen as it was but for the alert: the timer state and
  the interval are unchanged.
\<close>

theorem duration_bound_enforced:
  "(customStartOnPress cid customDuration parsed = NavigateTimerScreen cid' m
      \<longrightarrow> 1 \<le> m \<and> m \<le> 480 \<and> parsed = Some m)
   \<and> (\<not> (\<exists>k. parsed' = Some k \<and> 1 \<le> k \<and> k \<le> 480)
      \<longrightarrow> customStartOnPress cid customDuration' parsed' = AlertInvalidDuration)
   \<and> (\<forall>p \<in> set presetDurations.
         handleStartTimer cid p = NavigateTimerScreen cid p \<and> 1 \<le> p \<and> p \<le> 480)
   \<and> (\<forall>k. customMinutes = Some k \<and> 1 \<le> k \<and> k \<le> 480
      \<longrightarrow> timerState (handleCustomTimeSubmit customMinutes now scr)
           = \<lparr>isRunning = True, remainingSeconds = k * 60, elapsedSeconds = 0,
              targetSeconds = k * 60, startTime = Some now\<rparr>)
   \<and> (\<not> (\<exists>k. customMinutes' = Some k \<and> 1 \<le> k \<and> k \<le> 480)
      \<longrightarrow> handleCustomTimeSubmit customMinutes' now scr
            = scr\<lparr>alerts := alerts scr @ [''Invalid Duration'']\<rparr>
          \<and> timerState (handleCustomTimeSubmit customMinutes' now scr) = timerState scr
          \<and> intervalRef (step scr (SubmitCustomTime customMinutes' now)) = intervalRef scr)"
proof -
  have a: "customStartOnPress cid customDuration parsed = NavigateTimerScreen cid' m
      \<longrightarrow> 1 \<le> m \<and> m \<le> 480 \<and> parsed = Some m"
    by (auto simp: customStartOnPress_def split: option.splits if_splits)
  have b: "\<not> (\<exists>k. parsed' = Some k \<and> 1 \<le> k \<and> k \<le> 480)
      \<longrightarrow> customStartOnPress cid customDuration' parsed' = AlertInvalidDuration"
    by (auto simp: customStartOnPress_def split: option.splits)
  have c: "\<forall>p \<in> set presetDurations.
         handleStartTimer cid p = NavigateTimerScreen cid p \<and> 1 \<le> p \<and> p \<le> 480"
    by (simp add: presetDurations_def handleStartTimer_def)
  have d: "\<forall>k. customMinutes = Some k \<and> 1 \<le> k \<and> k \<le> 480
      \<longrightarrow> timerState (handleCustomTimeSubmit customMinutes now scr)
           = \<lparr>isRunning = True, remainingSeconds = k * 60, elapsedSeconds = 0,
              targetSeconds = k * 60, startTime = Some now\<rparr>"
    by (auto simp: handleCustomTimeSubmit_def freshTimerState_def minutesToSeconds_def)
  have e1: "\<not> (\<exists>k. customMinutes' = Some k \<and> 1 \<le> k \<and> k \<le> 480)
      \<longrightarrow> handleCustomTimeSubmit customMinutes' now scr
            = scr\<lparr>alerts := alerts scr @ [''Invalid Duration'']\<rparr>"
    by (auto simp: handleCustomTimeSubmit_def split: option.splits)
  have e: "\<not> (\<exists>k. customMinutes' = Some k \<and> 1 \<le> k \<and> k \<le> 480)
      \<longrightarrow> handleCustomTimeSubmit customMinutes' now scr
            = scr\<lparr>alerts := alerts scr @ [''Invalid Duration'']\<rparr>
          \<and> timerState (handleCustomTimeSubmit customMinutes' now scr) = timerState scr
          \<and> intervalRef (step scr (SubmitCustomTime customMinutes' now)) = intervalRef scr"
    using e1 by (auto simp: step_def timerEffect_def)
  from a b c d e show ?thesis by blast
qed

theorem duration_bound_enforced_witness:
  "customStartOnPress ''c_1'' ''25'' (Some 25) = NavigateTimerScreen ''c_1'' 25
   \<and> customStartOnPress ''c_1'' ''481'' (Some 481) = AlertInvalidDuration
   \<and> customStartOnPress ''c_1'' ''abc'' None = AlertInvalidDuration
   \<and> timerState (handleCustomTimeSubmit (Some 25) 5000 exampleScreen)
        = \<lparr>isRunning = True, remainingSeconds = 1500, elapsedSeconds = 0,
           targetSeconds = 1500, startTime = Some 5000\<rparr>
   \<and> timerState (handleCustomTimeSubmit (Some 0) 5000 exampleScreen)
        = timerState exampleScreen
   \<and> intervalRef (step exampleScreen (SubmitCustomTime (Some 0) 5000))
        = intervalRef exampleScreen"
proof -
  note inst = duration_bound_enforced
    [of "''c_1''" "''25''" "Some 25" "''c_1''" 25 "Some 481" "''481''" "Some 25" 5000
        exampleScreen "Some 0"]
  have none: "customStartOnPress ''c_1'' ''abc'' None = AlertInvalidDuration"
    by (simp add: customStartOnPress_def)
  show ?thesis using inst none by (simp add: customStartOnPress_def)
qed

section \<open>The timer screen\<close>

lemma loadData_stored [simp]:
  "storedSessions (loadData st) = storedSessions st"
  "storedCourses (loadData st) = storedCourses st"
  by (simp_all add: loadData_def Let_def split: option.splits)

lemma loadData_sessions:
  "sessions (loadData st) = (case storedSessions st of None \<Rightarrow> sessions st | Some ss \<Rightarrow> ss)"
  by (simp add: loadData_def Let_def split: option.splits)

lemma addSession_ok:
  "addSession ss newId True d st
     = (Inr (), st\<lparr>sessions := ss @ [newSession newId d],
                   storedSessions := Some (ss @ [newSession newId d])\<rparr>)"
  by (simp add: addSession_def Let_def)

lemma addSession_failed:
  "addSession ss newId False d st
     = (Inl StorageFailure, st\<lparr>sessions := ss @ [newSession newId d],
                                error := Some ''Failed to add session''\<rparr>)"
  by (simp add: addSession_def Let_def)

lemma handleTimerComplete_ok:
  "handleTimerComplete cl now newId True scr =
     scr\<lparr>showCompletionModal := True,
         storage := reload ((storage scr)
            \<lparr>sessions := cl_sessions cl @
               [\<lparr>courseId = route_courseId scr, startAt = now,
                 durationSeconds = targetSeconds (cl_timerState cl),
                 targetSeconds = targetSeconds (cl_timerState cl),
                 isPartial = False, id_s = newId\<rparr>],
             storedSessions := Some (cl_sessions cl @
               [\<lparr>courseId = route_courseId scr, startAt = now,
                 durationSeconds = targetSeconds (cl_timerState cl),
                 targetSeconds = targetSeconds (cl_timerState cl),
                 isPartial = False, id_s = newId\<rparr>])\<rparr>)\<rparr>"
  by (simp add: handleTimerComplete_def addSession_ok newSession_def)

lemma handleTimerComplete_timerState [simp]:
  "timerState (handleTimerComplete cl now newId writeOk scr) = timerState scr"
  by (cases writeOk) (simp_all add: handleTimerComplete_def addSession_ok addSession_failed)

lemma timerEffect_timerState [simp]: "timerState (timerEffect b scr) = timerState scr"
  by (simp add: timerEffect_def)

lemma timerEffect_storage [simp]: "storage (timerEffect b scr) = storage scr"
  by (simp add: timerEffect_def)

lemma elapsedAt_started:
  "startTime ts = Some t0 \<Longrightarrow> t0 \<noteq> 0 \<Longrightarrow> elapsedAt now ts = (now - t0) div 1000"
  by (simp add: elapsedAt_def)

lemma timerTick_completing:
  assumes "intervalRef scr = Some cl" and "remainingAt now (timerState scr) \<le> 0"
  shows "timerTick now newId writeOk scr =
           (handleTimerComplete cl now newId writeOk scr)
             \<lparr>timerState := (timerState scr)\<lparr>isRunning := False, remainingSeconds := 0,
                                  elapsedSeconds := targetSeconds (timerState scr)\<rparr>\<rparr>"
  using assms by (simp add: timerTick_def Let_def)

lemma timerTick_counting:
  assumes "intervalRef scr = Some cl" and "0 < remainingAt now (timerState scr)"
  shows "timerTick now newId writeOk scr =
           scr\<lparr>timerState := (timerState scr)
                  \<lparr>remainingSeconds := remainingAt now (timerState scr),
                   elapsedSeconds := elapsedAt now (timerState scr)\<rparr>\<rparr>"
  using assms by (simp add: timerTick_def Let_def)

lemma timerTick_timerState:
  assumes "intervalRef scr = Some cl"
  shows "timerState (timerTick now newId writeOk scr) =
           (if remainingAt now (timerState scr) \<le> 0
            then (timerState scr)\<lparr>isRunning := False, remainingSeconds := 0,
                                   elapsedSeconds := targetSeconds (timerState scr)\<rparr>
            else (timerState scr)\<lparr>remainingSeconds := remainingAt now (timerState scr),
                                   elapsedSeconds := elapsedAt now (timerState scr)\<rparr>)"
  using assms timerTick_completing[of scr cl now newId writeOk]
    timerTick_counting[of scr cl now newId writeOk]
  by (cases "remainingAt now (timerState scr) \<le> 0") simp_all

text \<open>A tick that does not complete the run changes the two counters and nothing else.\<close>

lemma step_tick_counting:
  assumes "intervalRef scr = Some cl" and "0 < remainingAt now (timerState scr)"
  shows "step scr (Tick now newId writeOk) =
           scr\<lparr>timerState := (timerState scr)
                  \<lparr>remainingSeconds := remainingAt now (timerState scr),
                   elapsedSeconds := elapsedAt now (timerState scr)\<rparr>\<rparr>"
  using assms by (simp add: step_def timerTick_counting timerEffect_def)

text \<open>Once the interval is cleared, a tick has nothing to run.\<close>

lemma tick_without_interval:
  "intervalRef scr = None \<Longrightarrow> step scr (Tick now newId writeOk) = scr"
  by (simp add: step_def timerTick_def timerEffect_def)

lemma handleTerminate_at_zero:
  "elapsedSeconds (timerState scr) = 0 \<Longrightarrow>
   handleTerminate now newId writeOk scr = scr\<lparr>wentBack := True\<rparr>"
  by (simp add: handleTerminate_def)

lemma handleTerminate_partial:
  "elapsedSeconds (timerState scr) \<noteq> 0 \<Longrightarrow>
   storedSessions (storage (handleTerminate now newId True scr))
     = Some (sessions (storage scr) @
         [\<lparr>courseId = route_courseId scr, startAt = now,
           durationSeconds = elapsedSeconds (timerState scr),
           targetSeconds = targetSeconds (timerState scr),
           isPartial = True, id_s = newId\<rparr>])"
  by (simp add: handleTerminate_def addSession_ok newSession_def)

lemma tick_recomputes:
  assumes "intervalRef scr = Some cl" and "startTime (timerState scr) = Some t0" and "t0 \<noteq> 0"
  shows "remainingSeconds (timerState (step scr (Tick now newId writeOk)))
           = max 0 (targetSeconds (timerState scr) - (now - t0) div 1000)"
    and "elapsedSeconds (timerState (step scr (Tick now newId writeOk)))
           = min (targetSeconds (timerState scr)) ((now - t0) div 1000)"
  using assms
  by (simp_all add: step_def timerTick_timerState remainingAt_def elapsedAt_started)

lemma foreground_recomputes:
  assumes "isRunning (timerState scr)" and "startTime (timerState scr) = Some t0" and "t0 \<noteq> 0"
    and "subscription scr" and "appStateRef scr = Inactive \<or> appStateRef scr = Background"
  shows "remainingSeconds (timerState (step scr (AppStateChange Active now)))
           = max 0 (targetSeconds (timerState scr) - (now - t0) div 1000)"
    and "elapsedSeconds (timerState (step scr (AppStateChange Active now)))
           = (now - t0) div 1000"
  using assms
  by (auto simp add: step_def handleAppStateChange_def Let_def)

lemma run_ticks_counting:
  assumes "intervalRef scr = Some cl" and "startTime (timerState scr) = Some t0" and "t0 \<noteq> 0"
    and "\<forall>n \<in> set nows. (n - t0) div 1000 < targetSeconds (timerState scr)"
  shows "\<exists>r e. run scr (map (\<lambda>n. Tick n newId writeOk) nows)
                 = scr\<lparr>timerState := (timerState scr)\<lparr>remainingSeconds := r,
                                                       elapsedSeconds := e\<rparr>\<rparr>"
  using assms
proof (induction nows arbitrary: scr)
  case Nil
  have "scr = scr\<lparr>timerState := (timerState scr)
            \<lparr>remainingSeconds := remainingSeconds (timerState scr),
             elapsedSeconds := elapsedSeconds (timerState scr)\<rparr>\<rparr>" by simp
  then show ?case unfolding run_def by (metis foldl_Nil list.simps(8))
next
  case (Cons n nows)
  let ?ts = "timerState scr"
  let ?scr1 = "scr\<lparr>timerState := ?ts\<lparr>remainingSeconds := remainingAt n ?ts,
                                       elapsedSeconds := elapsedAt n ?ts\<rparr>\<rparr>"
  have pos: "0 < remainingAt n ?ts"
    using Cons.prems by (simp add: remainingAt_def elapsedAt_started)
  have s1: "step scr (Tick n newId writeOk) = ?scr1"
    using step_tick_counting[OF Cons.prems(1) pos] .
  have "\<exists>r e. run ?scr1 (map (\<lambda>n. Tick n newId writeOk) nows)
                 = ?scr1\<lparr>timerState := (timerState ?scr1)\<lparr>remainingSeconds := r,
                                                       elapsedSeconds := e\<rparr>\<rparr>"
    using Cons.prems by (intro Cons.IH) simp_all
  then obtain r e where
    "run ?scr1 (map (\<lambda>n. Tick n newId writeOk) nows)
       = ?scr1\<lparr>timerState := (timerState ?scr1)\<lparr>remainingSeconds := r,
                                                 elapsedSeconds := e\<rparr>\<rparr>" by blast
  then have "run scr (map (\<lambda>n. Tick n newId writeOk) (n # nows))
       = scr\<lparr>timerState := ?ts\<lparr>remainingSeconds := r, elapsedSeconds := e\<rparr>\<rparr>"
    by (simp add: run_def s1)
  then show ?case by blast
qed

lemma exampleScreen_facts:
  "intervalRef exampleScreen = Some exampleClosure"
  "isRunning (timerState exampleScreen)"
  "startTime (timerState exampleScreen) = Some 1000"
  "targetSeconds (timerState exampleScreen) = 60"
  "route_courseId exampleScreen = ''c_1''"
  "subscription exampleScreen"
  "appStateRef exampleScreen = Active"
  by code_simp+

lemma backgroundedScreen_facts:
  "intervalRef backgroundedScreen = Some exampleClosure"
  "isRunning (timerState backgroundedScreen)"
  "startTime (timerState backgroundedScreen) = Some 1000"
  "targetSeconds (timerState backgroundedScreen) = 60"
  "subscription backgroundedScreen"
  "appStateRef backgroundedScreen = Background"
  by code_simp+

text \<open>
  What one completing tick does. When a tick of a running timer finds no time remaining,
  and the write succeeds, the stored collection becomes the list held by the interval's callback followed by
  exactly one new record: not partial, its duration equal to its target (the target of
  the run as that callback sees it), its \<open>startAt\<close> the clock reading of this tick. The
  clock stops, the interval is cleared and the completion modal is shown.
\<close>

lemma completing_tick_stores_one_full_session:
  assumes "intervalRef scr = Some cl" and "isRunning (timerState scr)"
    and "remainingAt now (timerState scr) = 0"
  shows "storedSessions (storage (step scr (Tick now newId True)))
           = Some (cl_sessions cl @
               [\<lparr>courseId = route_courseId scr, startAt = now,
                 durationSeconds = targetSeconds (cl_timerState cl),
                 targetSeconds = targetSeconds (cl_timerState cl),
                 isPartial = False, id_s = newId\<rparr>])
       \<and> sessions (storage (step scr (Tick now newId True)))
           = cl_sessions cl @
               [\<lparr>courseId = route_courseId scr, startAt = now,
                 durationSeconds = targetSeconds (cl_timerState cl),
                 targetSeconds = targetSeconds (cl_timerState cl),
                 isPartial = False, id_s = newId\<rparr>]
       \<and> timerState (step scr (Tick now newId True))
           = (timerState scr)\<lparr>isRunning := False, remainingSeconds := 0,
                               elapsedSeconds := targetSeconds (timerState scr)\<rparr>
       \<and> intervalRef (step scr (Tick now newId True)) = None
       \<and> showCompletionModal (step scr (Tick now newId True))"
proof -
  have tick: "timerTick now newId True scr =
           (handleTimerComplete cl now newId True scr)
             \<lparr>timerState := (timerState scr)\<lparr>isRunning := False, remainingSeconds := 0,
                                  elapsedSeconds := targetSeconds (timerState scr)\<rparr>\<rparr>"
    using assms timerTick_completing[of scr cl now newId True] by simp
  have sel: "sessions (storage (timerTick now newId True scr))
           = cl_sessions cl @
               [\<lparr>courseId = route_courseId scr, startAt = now,
                 durationSeconds = targetSeconds (cl_timerState cl),
                 targetSeconds = targetSeconds (cl_timerState cl),
                 isPartial = False, id_s = newId\<rparr>]"
    by (simp add: tick handleTimerComplete_ok reload_def loadData_sessions)
  show ?thesis
    using assms(2)
    by (simp add: step_def tick timerEffect_def handleTimerComplete_ok reload_def
          loadData_sessions)
qed

text \<open>
  The interval set up at mount belongs to the first render, whose session list is
  empty. A completion it fires, with no pause in between, stores the new record alone,
  whatever the store held before.
\<close>

lemma completion_from_first_interval:
  "storedSessions (storage (run
       (mount ''c_1'' 1 1000 (Some [course1]) (Some [sessionAt ''s_0'' ''c_1'' 700]))
       [DataLoaded, Tick 61000 ''s_1'' True]))
   = Some [\<lparr>courseId = ''c_1'', startAt = 61000, durationSeconds = 60,
            targetSeconds = 60, isPartial = False, id_s = ''s_1''\<rparr>]"
  by code_simp

text \<open>
  C5, as the claim states it, fails on a tick that finds the target passed: 61 seconds
  after the start of a 60 second run the tick stores 60, not 61, in \<open>elapsedSeconds\<close>.
\<close>

theorem tick_clamps_elapsed_counterexample:
  "isRunning (timerState exampleScreen)
   \<and> startTime (timerState exampleScreen) = Some 1000
   \<and> (62500 - 1000) div 1000 = (61 :: int)
   \<and> elapsedSeconds (timerState (step exampleScreen (Tick 62500 ''s_1'' True))) = 60
   \<and> elapsedSeconds (timerState (step exampleScreen (Tick 62500 ''s_1'' True)))
        \<noteq> (62500 - 1000) div 1000"
  by code_simp

text \<open>
  C5, amended. For a running timer with its start time set (and not 0): every tick of
  its interval, whatever the app state, leaves
  \<open>remainingSeconds = max 0 (targetSeconds - (now - startTime) div 1000)\<close> and
  \<open>elapsedSeconds = min targetSeconds ((now - startTime) div 1000)\<close>; every return to
  the foreground from the background or the inactive state leaves the same
  \<open>remainingSeconds\<close> and \<open>elapsedSeconds = (now - startTime) div 1000\<close>. Both read
  the start time only, so after any number of earlier ticks, none of which completed
  the run, the next tick yields these same values and the next return to the foreground
  that same \<open>remainingSeconds\<close>.
\<close>

theorem recomputation_from_start_timestamp:
  assumes running: "isRunning (timerState scr)"
    and started: "startTime (timerState scr) = Some t0" and nz: "t0 \<noteq> 0"
  shows "(intervalRef scr = Some cl
          \<longrightarrow> remainingSeconds (timerState (step scr (Tick now newId writeOk)))
                = max 0 (targetSeconds (timerState scr) - (now - t0) div 1000)
              \<and> elapsedSeconds (timerState (step scr (Tick now newId writeOk)))
                = min (targetSeconds (timerState scr)) ((now - t0) div 1000))
       \<and> (subscription scr \<and> (appStateRef scr = Inactive \<or> appStateRef scr = Background)
          \<longrightarrow> remainingSeconds (timerState (step scr (AppStateChange Active now)))
                = max 0 (targetSeconds (timerState scr) - (now - t0) div 1000)
              \<and> elapsedSeconds (timerState (step scr (AppStateChange Active now)))
                = (now - t0) div 1000)
       \<and> (intervalRef scr = Some cl
            \<and> (\<forall>n \<in> set nows. (n - t0) div 1000 < targetSeconds (timerState scr))
          \<longrightarrow> remainingSeconds (timerState
                 (step (run scr (map (\<lambda>n. Tick n newId writeOk) nows))
                    (Tick now newId writeOk)))
                = max 0 (targetSeconds (timerState scr) - (now - t0) div 1000)
              \<and> elapsedSeconds (timerState
                 (step (run scr (map (\<lambda>n. Tick n newId writeOk) nows))
                    (Tick now newId writeOk)))
                = min (targetSeconds (timerState scr)) ((now - t0) div 1000)
              \<and> (subscription scr
                   \<and> (appStateRef scr = Inactive \<or> appStateRef scr = Background)
                 \<longrightarrow> remainingSeconds (timerState
                        (step (run scr (map (\<lambda>n. Tick n newId writeOk) nows))
                           (AppStateChange Active now)))
                       = max 0 (targetSeconds (timerState scr) - (now - t0) div 1000)))"
proof -
  have tk: "intervalRef scr = Some cl
          \<longrightarrow> remainingSeconds (timerState (step scr (Tick now newId writeOk)))
                = max 0 (targetSeconds (timerState scr) - (now - t0) div 1000)
              \<and> elapsedSeconds (timerState (step scr (Tick now newId writeOk)))
                = min (targetSeconds (timerState scr)) ((now - t0) div 1000)"
    using tick_recomputes[OF _ started nz, of cl now newId writeOk] by blast
  have fg: "subscription scr \<and> (appStateRef scr = Inactive \<or> appStateRef scr = Background)
          \<longrightarrow> remainingSeconds (timerState (step scr (AppStateChange Active now)))
                = max 0 (targetSeconds (timerState scr) - (now - t0) div 1000)
              \<and> elapsedSeconds (timerState (step scr (AppStateChange Active now)))
                = (now - t0) div 1000"
    using foreground_recomputes[OF running started nz, of now] by blast
  have later: "intervalRef scr = Some cl
            \<and> (\<forall>n \<in> set nows. (n - t0) div 1000 < targetSeconds (timerState scr))
          \<longrightarrow> remainingSeconds (timerState
                 (step (run scr (map (\<lambda>n. Tick n newId writeOk) nows))
                    (Tick now newId writeOk)))
                = max 0 (targetSeconds (timerState scr) - (now - t0) div 1000)
              \<and> elapsedSeconds (timerState
                 (step (run scr (map (\<lambda>n. Tick n newId writeOk) nows))
                    (Tick now newId writeOk)))
                = min (targetSeconds (timerState scr)) ((now - t0) div 1000)
              \<and> (subscription scr
                   \<and> (appStateRef scr = Inactive \<or> appStateRef scr = Background)
                 \<longrightarrow> remainingSeconds (timerState
                        (step (run scr (map (\<lambda>n. Tick n newId writeOk) nows))
                           (AppStateChange Active now)))
                       = max 0 (targetSeconds (timerState scr) - (now - t0) div 1000))"
  proof
    assume h: "intervalRef scr = Some cl
            \<and> (\<forall>n \<in> set nows. (n - t0) div 1000 < targetSeconds (timerState scr))"
    then have live: "intervalRef scr = Some cl"
      and early: "\<forall>n \<in> set nows. (n - t0) div 1000 < targetSeconds (timerState scr)"
      by simp_all
    from run_ticks_counting[OF live started nz early, of newId writeOk]
    obtain r e where after:
      "run scr (map (\<lambda>n. Tick n newId writeOk) nows)
         = scr\<lparr>timerState := (timerState scr)\<lparr>remainingSeconds := r, elapsedSeconds := e\<rparr>\<rparr>"
      by blast
    let ?scr' = "scr\<lparr>timerState := (timerState scr)\<lparr>remainingSeconds := r,
                                                      elapsedSeconds := e\<rparr>\<rparr>"
    have a: "remainingSeconds (timerState (step ?scr' (Tick now newId writeOk)))
             = max 0 (targetSeconds (timerState ?scr') - (now - t0) div 1000)"
      by (rule tick_recomputes(1)[of _ cl]) (simp_all add: live started nz)
    have a': "elapsedSeconds (timerState (step ?scr' (Tick now newId writeOk)))
             = min (targetSeconds (timerState ?scr')) ((now - t0) div 1000)"
      by (rule tick_recomputes(2)[of _ cl]) (simp_all add: live started nz)
    have b: "subscription scr \<and> (appStateRef scr = Inactive \<or> appStateRef scr = Background)
          \<longrightarrow> remainingSeconds (timerState (step ?scr' (AppStateChange Active now)))
             = max 0 (targetSeconds (timerState ?scr') - (now - t0) div 1000)"
    proof
      assume c: "subscription scr \<and> (appStateRef scr = Inactive \<or> appStateRef scr = Background)"
      show "remainingSeconds (timerState (step ?scr' (AppStateChange Active now)))
             = max 0 (targetSeconds (timerState ?scr') - (now - t0) div 1000)"
        by (rule foreground_recomputes(1)) (use running started nz c in simp_all)
    qed
    show "remainingSeconds (timerState
                 (step (run scr (map (\<lambda>n. Tick n newId writeOk) nows))
                    (Tick now newId writeOk)))
                = max 0 (targetSeconds (timerState scr) - (now - t0) div 1000)
              \<and> elapsedSeconds (timerState
                 (step (run scr (map (\<lambda>n. Tick n newId writeOk) nows))
                    (Tick now newId writeOk)))
                = min (targetSeconds (timerState scr)) ((now - t0) div 1000)
              \<and> (subscription scr
                   \<and> (appStateRef scr = Inactive \<or> appStateRef scr = Background)
                 \<longrightarrow> remainingSeconds (timerState
                        (step (run scr (map (\<lambda>n. Tick n newId writeOk) nows))
                           (AppStateChange Active now)))
                       = max 0 (targetSeconds (timerState scr) - (now - t0) div 1000))"
      using a a' b by (simp add: after)
  qed
  show ?thesis using tk fg later by blast
qed

text \<open>
  The run of \<open>exampleScreen\<close>, with the app in the foreground, read by ticks 30 and
  61.5 seconds after its start, with and without the two ticks at 2000 and 3000 before;
  and the same run in the background, read on the return to the foreground.
\<close>

theorem recomputation_from_start_timestamp_witness:
  "appStateRef exampleScreen = Active
   \<and> remainingSeconds (timerState (step exampleScreen (Tick 31000 ''s_1'' True))) = 30
   \<and> elapsedSeconds (timerState (step exampleScreen (Tick 31000 ''s_1'' True))) = 30
   \<and> remainingSeconds (timerState
        (step (run exampleScreen (map (\<lambda>n. Tick n ''s_1'' True) [2000, 3000]))
           (Tick 31000 ''s_1'' True))) = 30
   \<and> remainingSeconds (timerState (step exampleScreen (Tick 62500 ''s_1'' True))) = 0
   \<and> elapsedSeconds (timerState (step exampleScreen (Tick 62500 ''s_1'' True))) = 60
   \<and> appStateRef backgroundedScreen = Background
   \<and> remainingSeconds (timerState (step backgroundedScreen (AppStateChange Active 31000))) = 30
   \<and> elapsedSeconds (timerState (step backgroundedScreen (AppStateChange Active 31000))) = 30
   \<and> remainingSeconds (timerState
        (step (run backgroundedScreen (map (\<lambda>n. Tick n ''s_1'' True) [2000, 3000]))
           (AppStateChange Active 31000))) = 30"
proof -
  have nz: "(1000 :: int) \<noteq> 0" by simp
  note in_front = recomputation_from_start_timestamp
      [OF exampleScreen_facts(2) exampleScreen_facts(3) nz,
       of exampleClosure _ "''s_1''" True "[2000, 3000]"]
  note behind = recomputation_from_start_timestamp
      [OF backgroundedScreen_facts(2) backgroundedScreen_facts(3) nz,
       of exampleClosure 31000 "''s_1''" True "[2000, 3000]"]
  show ?thesis
    using in_front[of 31000] in_front[of 62500] behind
    by (simp add: exampleScreen_facts(1,4,7) backgroundedScreen_facts(1,4,5,6))
qed

text \<open>
  C6, as the claim states it, fails: 30 seconds into the run of \<open>exampleScreen\<close> the
  user leaves the screen, and the store holds no session afterwards.
\<close>

theorem leaving_mid_run_counterexample:
  "isRunning (timerState (step exampleScreen (Tick 31000 ''s_1'' True)))
   \<and> elapsedSeconds (timerState (step exampleScreen (Tick 31000 ''s_1'' True))) = 30
   \<and> storedSessions (storage (run exampleScreen [Tick 31000 ''s_1'' True, Unmount])) = Some []
   \<and> sessions (storage (run exampleScreen [Tick 31000 ''s_1'' True, Unmount])) = []"
  by code_simp

text \<open>
  C6, amended. When the timer screen is unmounted by navigating back, no session is
  persisted, whatever time has elapsed: there is no last-chance flush. The unmount
  clears the interval and the AppState listener and nothing else; the hook's state, the
  stored collections and the timer state are as before, and afterwards no tick and no
  app-state change has any effect.
\<close>

theorem leaving_the_screen_persists_nothing:
  "storage (step scr Unmount) = storage scr
   \<and> storedSessions (storage (step scr Unmount)) = storedSessions (storage scr)
   \<and> timerState (step scr Unmount) = timerState scr
   \<and> intervalRef (step scr Unmount) = None
   \<and> \<not> subscription (step scr Unmount)
   \<and> step (step scr Unmount) (Tick now newId writeOk) = step scr Unmount
   \<and> step (step scr Unmount) (AppStateChange nextAppState now) = step scr Unmount"
  by (simp add: step_def unmount_def timerEffect_def timerTick_def handleAppStateChange_def)

text \<open>
  C1. A one-minute run is opened at 1000; the app goes to the background and returns at
  101000, where \<^verbatim>\<open>handleAppStateChange\<close> sets \<open>elapsedSeconds\<close> to 100 with the timer
  still running; Terminate, pressed before the next tick, stores a session of 100
  seconds against a target of 60.
\<close>

theorem foreground_then_terminate_exceeds_target:
  "storedSessions (storage (run (mount ''c_1'' 1 1000 (Some [course1]) (Some []))
       [DataLoaded, AppStateChange Background 5000, AppStateChange Active 101000,
        PressTerminate 101200 ''s_1'' True]))
   = Some [\<lparr>courseId = ''c_1'', startAt = 101200, durationSeconds = 100,
            targetSeconds = 60, isPartial = True, id_s = ''s_1''\<rparr>]"
  by code_simp

text \<open>
  C3. A twenty-minute run, 300 seconds in when the app goes to the background, is
  brought back 1500 seconds after its start and terminated at once: the partial session
  stored has a duration of 1500 seconds, not below its target of 1200.
\<close>

theorem terminate_partial_not_below_target:
  "storedSessions (storage (run (mount ''c_1'' 20 1000 (Some [course1]) (Some []))
       [DataLoaded, Tick 301000 ''s_0'' True, AppStateChange Background 301500,
        AppStateChange Active 1501000, PressTerminate 1501300 ''s_1'' True]))
   = Some [\<lparr>courseId = ''c_1'', startAt = 1501300, durationSeconds = 1500,
            targetSeconds = 1200, isPartial = True, id_s = ''s_1''\<rparr>]"
  by code_simp

text \<open>
  C4. A one-minute run completes on the tick at 61000 and stores its session; the
  completion modal is dismissed, the user presses Resume at 70000, and the next tick
  completes the same run again and stores a second full session.
\<close>

theorem resume_after_completion_completes_again:
  "storedSessions (storage (run (mount ''c_1'' 1 1000 (Some [course1]) (Some []))
       [DataLoaded, Tick 61000 ''s_1'' True, CloseCompletionModal,
        PressPauseResume 70000, Tick 71000 ''s_2'' True]))
   = Some [\<lparr>courseId = ''c_1'', startAt = 61000, durationSeconds = 60,
            targetSeconds = 60, isPartial = False, id_s = ''s_1''\<rparr>,
           \<lparr>courseId = ''c_1'', startAt = 71000, durationSeconds = 60,
            targetSeconds = 60, isPartial = False, id_s = ''s_2''\<rparr>]"
  by code_simp

text \<open>
  C2. A two-minute run completes on the tick at 121000 and stores its full session. With
  the completion modal dismissed, the same run stores a second session: a second full
  one when the user presses Resume and the next tick fires, a partial one of 120 seconds
  against a target of 120 when the user presses Terminate.
\<close>

theorem completed_run_stores_second_session:
  "storedSessions (storage (run (mount ''c_1'' 2 1000 (Some [course1]) (Some []))
       [DataLoaded, Tick 121000 ''s_1'' True, CloseCompletionModal,
        PressPauseResume 130000, Tick 131000 ''s_2'' True]))
   = Some [\<lparr>courseId = ''c_1'', startAt = 121000, durationSeconds = 120,
            targetSeconds = 120, isPartial = False, id_s = ''s_1''\<rparr>,
           \<lparr>courseId = ''c_1'', startAt = 131000, durationSeconds = 120,
            targetSeconds = 120, isPartial = False, id_s = ''s_2''\<rparr>]
   \<and> storedSessions (storage (run (mount ''c_1'' 2 1000 (Some [course1]) (Some []))
       [DataLoaded, Tick 121000 ''s_1'' True, CloseCompletionModal,
        PressTerminate 125000 ''s_2'' True]))
   = Some [\<lparr>courseId = ''c_1'', startAt = 121000, durationSeconds = 120,
            targetSeconds = 120, isPartial = False, id_s = ''s_1''\<rparr>,
           \<lparr>courseId = ''c_1'', startAt = 125000, durationSeconds = 120,
            targetSeconds = 120, isPartial = True, id_s = ''s_2''\<rparr>]"
  by code_simp

end
